theory Spec2Isabelle
  imports Main
begin

section \<open>The clipboard submitter \<^verbatim>\<open>submit.py\<close>\<close>

text \<open>
  \<^verbatim>\<open>submit.py\<close> reads a text file, optionally prepends the text of \<^verbatim>\<open>prompt.txt\<close>
  (looked up beside the script), pipes the result to the clipboard utility of the
  platform and prints one status line. The program is straight-line code over three
  kinds of library calls: opening and reading a file, asking for the platform name, and
  spawning a process with the text on its standard input. The embedding makes the
  answers of these calls an explicit environment, threads the observable effects
  (the calls made, both output streams, the clipboard) through a state record, and
  turns \<^verbatim>\<open>sys.exit(n)\<close> into the left injection of a sum.
\<close>

subsection \<open>Environment and observable state\<close>

text \<open>
  What the file system holds at a path, as \<^verbatim>\<open>open(path, "r", encoding="utf-8")\<close> followed by
  \<^verbatim>\<open>read()\<close> finds it: \<open>Content\<close> is a file that can be read, with its contents as stored
  (the text its bytes decode to, line ends as they are in the file); the other
  constructors are the exceptions that \<^verbatim>\<open>read_file\<close> tells apart. \<open>OtherReadError\<close> carries
  \<^verbatim>\<open>str(e)\<close> of any other exception (a directory, bytes that are not UTF-8, an I/O
  error).
\<close>

datatype read_result =
    Content string
  | FileNotFoundError
  | PermissionError
  | OtherReadError string

text \<open>
  What \<^verbatim>\<open>subprocess.Popen(argv, stdin=PIPE)\<close> followed by \<^verbatim>\<open>communicate(data)\<close> does for a
  command line: \<open>ToolNotFound\<close> is \<^verbatim>\<open>FileNotFoundError\<close> (the executable is not on the
  path), \<open>ToolRaised\<close> any other exception, both with \<^verbatim>\<open>str(e)\<close>; \<open>ToolExited rc\<close> is a
  process that was spawned, was given the data and ended with return code \<open>rc\<close>.
\<close>

datatype tool_result =
    ToolNotFound string
  | ToolRaised string
  | ToolExited int

text \<open>
  The library calls the program makes, in the order it makes them. \<open>Popen argv shell\<close>
  is an attempt to spawn, \<open>shell\<close> being the argument \<^verbatim>\<open>shell=True\<close> that the Windows branch
  passes; \<open>Communicate argv text\<close> is the text handed to the process spawned for \<open>argv\<close>.
\<close>

datatype event =
    Open string
  | Popen "string list" bool
  | Communicate "string list" string

record env =
  fs :: "string \<Rightarrow> read_result"
  platform_system :: string
  popen :: "string list \<Rightarrow> bool \<Rightarrow> tool_result"
  dunder_file :: string
  getcwd :: string

record state =
  events :: "event list"
  stdout :: "string list"
  stderr :: "string list"
  clipboard :: string

text \<open>The exceptions that \<^verbatim>\<open>copy_to_clipboard\<close> handles, with \<^verbatim>\<open>str(e)\<close>.\<close>

datatype exn =
    FileNotFoundExn string
  | OtherExn string

abbreviation squote :: string where
  "squote \<equiv> [CHR 0x27]"

subsection \<open>Path functions of the standard library\<close>

text \<open>
  \<^verbatim>\<open>os.path\<close> is not part of the repository. The four functions the script calls are
  modelled after \<^verbatim>\<open>posixpath\<close>, the implementation of \<^verbatim>\<open>os.path\<close> on Linux and macOS;
  the Windows implementation (\<^verbatim>\<open>ntpath\<close>) is not modelled.
\<close>

abbreviation sep :: char where
  "sep \<equiv> CHR ''/''"

definition isabs :: "string \<Rightarrow> bool" where
  "isabs p = (p \<noteq> [] \<and> hd p = sep)"

text \<open>\<^verbatim>\<open>join(a, b)\<close> for one component \<open>b\<close>.\<close>

definition join :: "string \<Rightarrow> string \<Rightarrow> string" where
  "join a b =
     (if isabs b then b
      else if a = [] \<or> last a = sep then a @ b
      else a @ [sep] @ b)"

text \<open>\<^verbatim>\<open>path.split('/')\<close>.\<close>

fun split_sep :: "string \<Rightarrow> string list" where
  "split_sep [] = [[]]"
| "split_sep (c # cs) =
     (if c = sep then [] # split_sep cs
      else (case split_sep cs of
              [] \<Rightarrow> [[c]]
            | w # ws \<Rightarrow> (c # w) # ws))"

text \<open>\<^verbatim>\<open>'/'.join(comps)\<close>.\<close>

fun join_sep :: "string list \<Rightarrow> string" where
  "join_sep [] = []"
| "join_sep [w] = w"
| "join_sep (w # v # ws) = w @ [sep] @ join_sep (v # ws)"

text \<open>
  The loop of \<^verbatim>\<open>normpath\<close> over the components, \<open>new_comps\<close> being the accumulator and
  \<open>initial_slashes\<close> the number of leading slashes kept (0, 1 or 2).
\<close>

fun normpath_loop :: "nat \<Rightarrow> string list \<Rightarrow> string list \<Rightarrow> string list" where
  "normpath_loop initial_slashes new_comps [] = new_comps"
| "normpath_loop initial_slashes new_comps (cmp # comps) =
     (if cmp = [] \<or> cmp = ''.'' then normpath_loop initial_slashes new_comps comps
      else if cmp \<noteq> ''..'' \<or> (initial_slashes = 0 \<and> new_comps = [])
                \<or> (new_comps \<noteq> [] \<and> last new_comps = ''..'')
        then normpath_loop initial_slashes (new_comps @ [cmp]) comps
      else if new_comps \<noteq> [] then normpath_loop initial_slashes (butlast new_comps) comps
      else normpath_loop initial_slashes new_comps comps)"

definition startswith :: "string \<Rightarrow> string \<Rightarrow> bool" where
  "startswith p q = (take (length q) p = q)"

definition normpath :: "string \<Rightarrow> string" where
  "normpath path =
     (if path = [] then ''.''
      else
        let initial_slashes =
              (if startswith path ''/'' then
                 (if startswith path ''//'' \<and> \<not> startswith path ''///'' then 2 else 1)
               else 0);
            path' = replicate initial_slashes sep
                      @ join_sep (normpath_loop initial_slashes [] (split_sep path))
        in if path' = [] then ''.'' else path')"

text \<open>\<^verbatim>\<open>abspath(path)\<close>, with the answer of \<^verbatim>\<open>os.getcwd()\<close> as a parameter.\<close>

definition abspath :: "string \<Rightarrow> string \<Rightarrow> string" where
  "abspath cwd path = normpath (if isabs path then path else join cwd path)"

text \<open>
  \<^verbatim>\<open>dirname(p)\<close>: the part up to and including the last slash, without its trailing
  slashes unless it consists of slashes only.
\<close>

definition dirname :: "string \<Rightarrow> string" where
  "dirname p =
     (let head = rev (dropWhile (\<lambda>c. c \<noteq> sep) (rev p))
      in if head \<noteq> [] \<and> head \<noteq> replicate (length head) sep
         then rev (dropWhile (\<lambda>c. c = sep) (rev head))
         else head)"

subsection \<open>The program\<close>

text \<open>
  One \<^verbatim>\<open>Popen\<close> with \<^verbatim>\<open>communicate(text.encode("utf-8"))\<close>. Text is represented by its
  characters throughout, so encoding is the identity. A utility that ends with return
  code 0 has replaced the clipboard by the data it was given; one that ends with another
  code has left the clipboard as it was.
\<close>

definition run_tool ::
  "env \<Rightarrow> string list \<Rightarrow> bool \<Rightarrow> string \<Rightarrow> state \<Rightarrow> (exn + unit) \<times> state" where
  "run_tool e argv shell text s =
     (let s1 = s\<lparr>events := events s @ [Popen argv shell]\<rparr> in
      case popen e argv shell of
        ToolNotFound m \<Rightarrow> (Inl (FileNotFoundExn m), s1)
      | ToolRaised m \<Rightarrow> (Inl (OtherExn m), s1)
      | ToolExited rc \<Rightarrow>
          (Inr (),
           s1\<lparr>events := events s1 @ [Communicate argv text],
              clipboard := (if rc = 0 then text else clipboard s1)\<rparr>))"

text \<open>The body of the outer \<^verbatim>\<open>try\<close> of \<^verbatim>\<open>copy_to_clipboard\<close>.\<close>

definition copy_dispatch :: "env \<Rightarrow> string \<Rightarrow> state \<Rightarrow> (exn + unit) \<times> state" where
  "copy_dispatch e text s =
     (if platform_system e = ''Darwin'' then run_tool e [''pbcopy''] False text s
      else if platform_system e = ''Linux'' then
        (case run_tool e [''xclip'', ''-selection'', ''clipboard''] False text s of
           (Inl (FileNotFoundExn m), s1) \<Rightarrow>
             run_tool e [''xsel'', ''--clipboard'', ''--input''] False text s1
         | r \<Rightarrow> r)
      else if platform_system e = ''Windows'' then run_tool e [''clip''] True text s
      else (Inl (OtherExn (''Unsupported operating system: '' @ platform_system e)), s))"

text \<open>
  \<^verbatim>\<open>copy_to_clipboard\<close>: the two handlers of the outer \<^verbatim>\<open>try\<close> print one line on the error
  stream and call \<^verbatim>\<open>sys.exit(1)\<close>, which is the result \<open>Inl 1\<close>.
\<close>

definition copy_to_clipboard :: "env \<Rightarrow> string \<Rightarrow> state \<Rightarrow> (int + unit) \<times> state" where
  "copy_to_clipboard e text s =
     (case copy_dispatch e text s of
        (Inl (FileNotFoundExn m), s1) \<Rightarrow>
          (Inl 1, s1\<lparr>stderr := stderr s1 @
                     [''Error: Required clipboard utility not found. '' @ m]\<rparr>)
      | (Inl (OtherExn m), s1) \<Rightarrow>
          (Inl 1, s1\<lparr>stderr := stderr s1 @ [''Error copying to clipboard: '' @ m]\<rparr>)
      | (Inr u, s1) \<Rightarrow> (Inr u, s1))"

text \<open>
  The file is opened in text mode with no \<^verbatim>\<open>newline\<close> argument, so \<^verbatim>\<open>read()\<close> returns the
  contents with universal newlines: each carriage return followed by a line feed, and
  each other carriage return, has become one line feed.
\<close>

abbreviation CR :: char where
  "CR \<equiv> CHR 0x0D"

abbreviation LF :: char where
  "LF \<equiv> CHR 0x0A"

fun universal_newlines :: "string \<Rightarrow> string" where
  "universal_newlines [] = []"
| "universal_newlines [c] = (if c = CR then [LF] else [c])"
| "universal_newlines (c # d # ds) =
     (if c = CR \<and> d = LF then LF # universal_newlines ds
      else if c = CR then LF # universal_newlines (d # ds)
      else c # universal_newlines (d # ds))"

definition read_file :: "env \<Rightarrow> string \<Rightarrow> state \<Rightarrow> (int + string) \<times> state" where
  "read_file e filepath s =
     (let s1 = s\<lparr>events := events s @ [Open filepath]\<rparr> in
      case fs e filepath of
        Content text \<Rightarrow> (Inr (universal_newlines text), s1)
      | FileNotFoundError \<Rightarrow>
          (Inl 1, s1\<lparr>stderr := stderr s1 @
                     [''Error: File '' @ squote @ filepath @ squote @ '' not found.'']\<rparr>)
      | PermissionError \<Rightarrow>
          (Inl 1, s1\<lparr>stderr := stderr s1 @
                     [''Error: Permission denied reading '' @ squote @ filepath @ squote
                        @ ''.'']\<rparr>)
      | OtherReadError m \<Rightarrow>
          (Inl 1, s1\<lparr>stderr := stderr s1 @
                     [''Error reading file '' @ squote @ filepath @ squote @ '': '' @ m]\<rparr>))"

text \<open>
  The parsed command line: the positional \<^verbatim>\<open>file_path\<close> and the flag \<^verbatim>\<open>-n/--new\<close>. What
  \<^verbatim>\<open>argparse\<close> does with a command line it rejects happens before the body of \<^verbatim>\<open>main\<close> and
  is not part of the model.
\<close>

record args =
  file_path :: string
  new :: bool

text \<open>Lines 82 and 83 of \<^verbatim>\<open>main\<close>: the path of the prompt file.\<close>

definition prompt_file :: "env \<Rightarrow> string" where
  "prompt_file e =
     (let script_dir = dirname (abspath (getcwd e) (dunder_file e))
      in join script_dir ''prompt.txt'')"

definition main :: "env \<Rightarrow> args \<Rightarrow> state \<Rightarrow> (int + unit) \<times> state" where
  "main e a s =
     (case read_file e (file_path a) s of
        (Inl n, s1) \<Rightarrow> (Inl n, s1)
      | (Inr file_content, s1) \<Rightarrow>
          (case (if new a then
                   (case read_file e (prompt_file e) s1 of
                      (Inl n, s2) \<Rightarrow> (Inl n, s2)
                    | (Inr prompt_content, s2) \<Rightarrow> (Inr (prompt_content @ file_content), s2))
                 else (Inr file_content, s1)) of
             (Inl n, s2) \<Rightarrow> (Inl n, s2)
           | (Inr final_content, s2) \<Rightarrow>
               (case copy_to_clipboard e final_content s2 of
                  (Inl n, s3) \<Rightarrow> (Inl n, s3)
                | (Inr u, s3) \<Rightarrow>
                    (if new a then
                       (Inr (), s3\<lparr>stdout := stdout s3 @
                          [''Copied '' @ squote @ file_path a @ squote
                             @ '' with prompt to clipboard.'']\<rparr>)
                     else
                       (Inr (), s3\<lparr>stdout := stdout s3 @
                          [''Copied '' @ squote @ file_path a @ squote
                             @ '' to clipboard.'']\<rparr>)))))"

text \<open>
  One run of the script as a process: it starts with nothing done and nothing printed,
  finds the clipboard holding \<open>c\<close>, and ends with exit status 0 when \<^verbatim>\<open>main\<close> returns and
  with \<open>n\<close> after \<^verbatim>\<open>sys.exit(n)\<close>.
\<close>

definition initial :: "string \<Rightarrow> state" where
  "initial c = \<lparr>events = [], stdout = [], stderr = [], clipboard = c\<rparr>"

definition exit_status :: "(int + unit) \<times> state \<Rightarrow> int" where
  "exit_status r = (case fst r of Inl n \<Rightarrow> n | Inr u \<Rightarrow> 0)"

definition run :: "env \<Rightarrow> args \<Rightarrow> string \<Rightarrow> int \<times> state" where
  "run e a c = (let r = main e a (initial c) in (exit_status r, snd r))"

subsection \<open>Reading a final state\<close>

text \<open>The paths opened, the command lines spawned and the texts piped, in order.\<close>

fun opened :: "event list \<Rightarrow> string list" where
  "opened [] = []"
| "opened (Open p # evs) = p # opened evs"
| "opened (ev # evs) = opened evs"

fun spawned :: "event list \<Rightarrow> string list list" where
  "spawned [] = []"
| "spawned (Popen argv shell # evs) = argv # spawned evs"
| "spawned (ev # evs) = spawned evs"

fun piped :: "event list \<Rightarrow> string list" where
  "piped [] = []"
| "piped (Communicate argv text # evs) = text # piped evs"
| "piped (ev # evs) = piped evs"

definition is_content :: "read_result \<Rightarrow> bool" where
  "is_content r = (case r of Content text \<Rightarrow> True | _ \<Rightarrow> False)"

definition is_not_found :: "tool_result \<Rightarrow> bool" where
  "is_not_found r = (case r of ToolNotFound m \<Rightarrow> True | _ \<Rightarrow> False)"

definition is_exited :: "tool_result \<Rightarrow> bool" where
  "is_exited r = (case r of ToolExited rc \<Rightarrow> True | _ \<Rightarrow> False)"

text \<open>
  The answer of the last clipboard utility that a platform's branch spawns: the one
  utility of macOS and of Windows, and on Linux \<^verbatim>\<open>xsel\<close> when \<^verbatim>\<open>xclip\<close> is not found.
  No utility is spawned on any other platform.
\<close>

definition utility_result :: "env \<Rightarrow> tool_result option" where
  "utility_result e =
     (if platform_system e = ''Darwin'' then Some (popen e [''pbcopy''] False)
      else if platform_system e = ''Linux'' then
        (if is_not_found (popen e [''xclip'', ''-selection'', ''clipboard''] False)
         then Some (popen e [''xsel'', ''--clipboard'', ''--input''] False)
         else Some (popen e [''xclip'', ''-selection'', ''clipboard''] False))
      else if platform_system e = ''Windows'' then Some (popen e [''clip''] True)
      else None)"

subsection \<open>Example machines\<close>

text \<open>
  A Linux machine with \<^verbatim>\<open>xclip\<close> installed and the script in \<^verbatim>\<open>/opt/french_study\<close>, beside
  its \<^verbatim>\<open>prompt.txt\<close>; the working directory holds a readable lesson and a file that may
  not be read.
\<close>

definition study_fs :: "string \<Rightarrow> read_result" where
  "study_fs p =
     (if p = ''lesson.txt'' then Content ''Bonjour''
      else if p = ''/opt/french_study/prompt.txt'' then Content ''Corrige: ''
      else if p = ''secret.txt'' then PermissionError
      else FileNotFoundError)"

definition xclip_only :: "string list \<Rightarrow> bool \<Rightarrow> tool_result" where
  "xclip_only argv shell =
     (if argv = [''xclip'', ''-selection'', ''clipboard''] then ToolExited 0
      else ToolNotFound ''[Errno 2] No such file or directory'')"

definition linux_box :: env where
  "linux_box =
     \<lparr>fs = study_fs, platform_system = ''Linux'', popen = xclip_only,
      dunder_file = ''/opt/french_study/submit.py'', getcwd = ''/home/learner''\<rparr>"

definition lesson :: "bool \<Rightarrow> args" where
  "lesson n = \<lparr>file_path = ''lesson.txt'', new = n\<rparr>"

text \<open>
  The same machine without \<^verbatim>\<open>prompt.txt\<close>, and the command line naming a file that does
  not exist.
\<close>

definition bare_fs :: "string \<Rightarrow> read_result" where
  "bare_fs p = (if p = ''lesson.txt'' then Content ''Bonjour'' else FileNotFoundError)"

definition no_prompt_box :: env where
  "no_prompt_box = linux_box\<lparr>fs := bare_fs\<rparr>"


text \<open>
  Further Linux machines: one whose \<^verbatim>\<open>xclip\<close> runs and ends with return code 1 (no display
  to connect to), one with neither \<^verbatim>\<open>xclip\<close> nor \<^verbatim>\<open>xsel\<close>, one where spawning raises
  \<^verbatim>\<open>PermissionError\<close>; and a machine of another platform.
\<close>

definition xclip_fails :: "string list \<Rightarrow> bool \<Rightarrow> tool_result" where
  "xclip_fails argv shell =
     (if argv = [''xclip'', ''-selection'', ''clipboard''] then ToolExited 1
      else ToolNotFound ''[Errno 2] No such file or directory'')"

definition headless_box :: env where
  "headless_box =
     \<lparr>fs = study_fs, platform_system = ''Linux'', popen = xclip_fails,
      dunder_file = ''/opt/french_study/submit.py'', getcwd = ''/home/learner''\<rparr>"

definition nothing_installed :: "string list \<Rightarrow> bool \<Rightarrow> tool_result" where
  "nothing_installed argv shell = ToolNotFound (''[Errno 2] No such file or directory: '' @ concat (take 1 argv))"

definition minimal_box :: env where
  "minimal_box =
     \<lparr>fs = study_fs, platform_system = ''Linux'', popen = nothing_installed,
      dunder_file = ''/opt/french_study/submit.py'', getcwd = ''/home/learner''\<rparr>"

definition xclip_denied :: "string list \<Rightarrow> bool \<Rightarrow> tool_result" where
  "xclip_denied argv shell = ToolRaised ''[Errno 13] Permission denied''"

definition locked_box :: env where
  "locked_box =
     \<lparr>fs = study_fs, platform_system = ''Linux'', popen = xclip_denied,
      dunder_file = ''/opt/french_study/submit.py'', getcwd = ''/home/learner''\<rparr>"

definition bsd_box :: env where
  "bsd_box =
     \<lparr>fs = study_fs, platform_system = ''FreeBSD'', popen = xclip_only,
      dunder_file = ''/opt/french_study/submit.py'', getcwd = ''/home/learner''\<rparr>"

text \<open>A Linux machine with \<^verbatim>\<open>xsel\<close> and without \<^verbatim>\<open>xclip\<close>.\<close>

definition xsel_only :: "string list \<Rightarrow> bool \<Rightarrow> tool_result" where
  "xsel_only argv shell =
     (if argv = [''xsel'', ''--clipboard'', ''--input''] then ToolExited 0
      else ToolNotFound ''[Errno 2] No such file or directory'')"

definition xsel_box :: env where
  "xsel_box =
     \<lparr>fs = study_fs, platform_system = ''Linux'', popen = xsel_only,
      dunder_file = ''/opt/french_study/submit.py'', getcwd = ''/home/learner''\<rparr>"

text \<open>
  The first machine again, the script started by a relative name from \<^verbatim>\<open>/opt\<close>, as an
  interpreter does that leaves \<^verbatim>\<open>__file__\<close> as it was typed.
\<close>

definition relative_box :: env where
  "relative_box =
     \<lparr>fs = study_fs, platform_system = ''Linux'', popen = xclip_only,
      dunder_file = ''french_study/submit.py'', getcwd = ''/opt''\<rparr>"

text \<open>
  The first machine with a dictation saved with DOS line ends: a carriage return and a
  line feed after the first line, a lone carriage return after the second.
\<close>

definition dos_fs :: "string \<Rightarrow> read_result" where
  "dos_fs p =
     (if p = ''dictee.txt'' then Content (''Bon'' @ [CR, LF] @ ''jour'' @ [CR])
      else if p = ''/opt/french_study/prompt.txt'' then Content ''Corrige: ''
      else FileNotFoundError)"

definition dos_box :: env where
  "dos_box =
     \<lparr>fs = dos_fs, platform_system = ''Linux'', popen = xclip_only,
      dunder_file = ''/opt/french_study/submit.py'', getcwd = ''/home/learner''\<rparr>"

definition dictee :: "bool \<Rightarrow> args" where
  "dictee n = \<lparr>file_path = ''dictee.txt'', new = n\<rparr>"

section \<open>Properties\<close>

subsection \<open>The steps of a run\<close>

lemma opened_append: "opened (xs @ ys) = opened xs @ opened ys"
  by (induction xs rule: opened.induct) simp_all
lemma spawned_append: "spawned (xs @ ys) = spawned xs @ spawned ys"
  by (induction xs rule: spawned.induct) simp_all
lemma piped_append: "piped (xs @ ys) = piped xs @ piped ys"
  by (induction xs rule: piped.induct) simp_all

lemma read_file_content:
  "fs e p = Content t \<Longrightarrow>
   read_file e p s = (Inr (universal_newlines t), s\<lparr>events := events s @ [Open p]\<rparr>)"
  by (simp add: read_file_def)

lemma universal_newlines_no_cr: "CR \<notin> set t \<Longrightarrow> universal_newlines t = t"
  by (induction t rule: universal_newlines.induct) auto

lemma read_file_error:
  assumes "\<not> is_content (fs e p)"
  shows "fst (read_file e p s) = Inl 1"
    and "events (snd (read_file e p s)) = events s @ [Open p]"
    and "stdout (snd (read_file e p s)) = stdout s"
    and "clipboard (snd (read_file e p s)) = clipboard s"
    and "length (stderr (snd (read_file e p s))) = Suc (length (stderr s))"
  using assms by (cases "fs e p"; simp add: read_file_def is_content_def)+

lemma copy_exited:
  assumes "utility_result e = Some (ToolExited rc)"
  shows "fst (copy_to_clipboard e t s) = Inr ()"
    and "piped (events (snd (copy_to_clipboard e t s))) = piped (events s) @ [t]"
    and "opened (events (snd (copy_to_clipboard e t s))) = opened (events s)"
    and "stdout (snd (copy_to_clipboard e t s)) = stdout s"
    and "stderr (snd (copy_to_clipboard e t s)) = stderr s"
    and "clipboard (snd (copy_to_clipboard e t s)) = (if rc = 0 then t else clipboard s)"
  using assms
  by (auto simp: utility_result_def copy_to_clipboard_def copy_dispatch_def run_tool_def
        is_not_found_def piped_append opened_append split: if_splits tool_result.splits)

lemma copy_raised:
  assumes "utility_result e = Some (ToolRaised m)"
  shows "fst (copy_to_clipboard e t s) = Inl 1"
    and "piped (events (snd (copy_to_clipboard e t s))) = piped (events s)"
    and "opened (events (snd (copy_to_clipboard e t s))) = opened (events s)"
    and "stdout (snd (copy_to_clipboard e t s)) = stdout s"
    and "stderr (snd (copy_to_clipboard e t s)) = stderr s @ [''Error copying to clipboard: '' @ m]"
    and "clipboard (snd (copy_to_clipboard e t s)) = clipboard s"
  using assms
  by (auto simp: utility_result_def copy_to_clipboard_def copy_dispatch_def run_tool_def
        is_not_found_def piped_append opened_append split: if_splits tool_result.splits)

lemma copy_unsupported:
  assumes "platform_system e \<noteq> ''Darwin''" "platform_system e \<noteq> ''Linux''"
    "platform_system e \<noteq> ''Windows''"
  shows "copy_to_clipboard e t s =
    (Inl 1, s\<lparr>stderr := stderr s @
       [''Error copying to clipboard: Unsupported operating system: '' @ platform_system e]\<rparr>)"
  using assms by (simp add: copy_to_clipboard_def copy_dispatch_def)

lemma copy_keeps:
  shows "opened (events (snd (copy_to_clipboard e t s))) = opened (events s)"
    and "stdout (snd (copy_to_clipboard e t s)) = stdout s"
  by (auto simp: copy_to_clipboard_def copy_dispatch_def run_tool_def Let_def
        opened_append split: tool_result.splits)

lemma main_unreadable:
  "\<not> is_content (fs e (file_path a)) \<Longrightarrow>
   main e a s = (Inl 1, snd (read_file e (file_path a) s))"
  by (cases "fs e (file_path a)") (simp_all add: main_def read_file_def is_content_def)

lemma main_prompt_unreadable:
  "fs e (file_path a) = Content f \<Longrightarrow> new a \<Longrightarrow> \<not> is_content (fs e (prompt_file e)) \<Longrightarrow>
   main e a s =
     (Inl 1, snd (read_file e (prompt_file e) (s\<lparr>events := events s @ [Open (file_path a)]\<rparr>)))"
  by (cases "fs e (prompt_file e)") (simp_all add: main_def read_file_def is_content_def)

lemma main_plain:
  assumes "fs e (file_path a) = Content f" "\<not> new a"
  shows "main e a s =
    (let r = copy_to_clipboard e (universal_newlines f)
               (s\<lparr>events := events s @ [Open (file_path a)]\<rparr>) in
     case fst r of
       Inl n \<Rightarrow> (Inl n, snd r)
     | Inr u \<Rightarrow>
         (Inr (), (snd r)\<lparr>stdout := stdout (snd r) @
            [''Copied '' @ squote @ file_path a @ squote @ '' to clipboard.'']\<rparr>))"
  using assms by (simp add: main_def read_file_content split: prod.splits sum.splits)

lemma main_new:
  assumes "fs e (file_path a) = Content f" "new a" "fs e (prompt_file e) = Content p"
  shows "main e a s =
    (let r = copy_to_clipboard e (universal_newlines p @ universal_newlines f)
               (s\<lparr>events := events s @ [Open (file_path a), Open (prompt_file e)]\<rparr>) in
     case fst r of
       Inl n \<Rightarrow> (Inl n, snd r)
     | Inr u \<Rightarrow>
         (Inr (), (snd r)\<lparr>stdout := stdout (snd r) @
            [''Copied '' @ squote @ file_path a @ squote @ '' with prompt to clipboard.'']\<rparr>))"
  using assms by (simp add: main_def read_file_content split: prod.splits sum.splits)

subsection \<open>Facts of the example machines and whole runs\<close>

lemma prompt_file_linux_box: "prompt_file linux_box = ''/opt/french_study/prompt.txt''"
  by code_simp

lemma utility_linux_box: "utility_result linux_box = Some (ToolExited 0)"
  by (simp add: utility_result_def linux_box_def xclip_only_def is_not_found_def)

lemma linux_box_sel:
  "fs linux_box = study_fs" "platform_system linux_box = ''Linux''"
  "popen linux_box = xclip_only"
  by (simp_all add: linux_box_def)

lemma no_prompt_box_sel:
  "fs no_prompt_box = bare_fs" "platform_system no_prompt_box = ''Linux''"
  "popen no_prompt_box = xclip_only"
  by (simp_all add: no_prompt_box_def linux_box_def)

lemma prompt_file_no_prompt_box: "prompt_file no_prompt_box = ''/opt/french_study/prompt.txt''"
  by code_simp

lemma headless_box_sel:
  "fs headless_box = study_fs" "platform_system headless_box = ''Linux''"
  "popen headless_box = xclip_fails"
  by (simp_all add: headless_box_def)

lemma minimal_box_sel:
  "fs minimal_box = study_fs" "platform_system minimal_box = ''Linux''"
  "popen minimal_box = nothing_installed"
  by (simp_all add: minimal_box_def)

lemma locked_box_sel:
  "fs locked_box = study_fs" "platform_system locked_box = ''Linux''"
  "popen locked_box = xclip_denied"
  by (simp_all add: locked_box_def)

lemma utility_locked_box:
  "utility_result locked_box = Some (ToolRaised ''[Errno 13] Permission denied'')"
  by (simp add: utility_result_def locked_box_sel xclip_denied_def is_not_found_def)

lemma bsd_box_sel:
  "fs bsd_box = study_fs" "platform_system bsd_box = ''FreeBSD''"
  "popen bsd_box = xclip_only"
  by (simp_all add: bsd_box_def)

lemma prompt_file_bsd_box: "prompt_file bsd_box = ''/opt/french_study/prompt.txt''"
  by code_simp

lemma utility_headless_box: "utility_result headless_box = Some (ToolExited 1)"
  by (simp add: utility_result_def headless_box_sel xclip_fails_def is_not_found_def)

lemma run_delivers:
  assumes "fs e (file_path a) = Content f" and "new a \<Longrightarrow> fs e (prompt_file e) = Content p"
  shows "run e a c =
    (let r = copy_to_clipboard e
               (if new a then universal_newlines p @ universal_newlines f
                else universal_newlines f)
               \<lparr>events = (if new a then [Open (file_path a), Open (prompt_file e)]
                           else [Open (file_path a)]),
                stdout = [], stderr = [], clipboard = c\<rparr> in
     case fst r of
       Inl n \<Rightarrow> (n, snd r)
     | Inr u \<Rightarrow>
         (0, (snd r)\<lparr>stdout := stdout (snd r) @
            [''Copied '' @ squote @ file_path a @ squote @
             (if new a then '' with prompt to clipboard.'' else '' to clipboard.'')]\<rparr>))"
proof (cases "new a")
  case True
  with assms(2) have p: "fs e (prompt_file e) = Content p" by simp
  show ?thesis
    by (simp add: run_def exit_status_def main_new [OF assms(1) True p] Let_def initial_def True
          split: sum.splits)
next
  case False
  show ?thesis
    by (simp add: run_def exit_status_def main_plain [OF assms(1) False] Let_def initial_def False
          split: sum.splits)
qed

lemma xsel_box_sel:
  "fs xsel_box = study_fs" "platform_system xsel_box = ''Linux''"
  "popen xsel_box = xsel_only"
  by (simp_all add: xsel_box_def)

subsection \<open>Runs that end at a read\<close>

lemma run_unreadable:
  assumes "\<not> is_content (fs e (file_path a))"
  shows "run e a c =
    (1, snd (read_file e (file_path a)
               \<lparr>events = [], stdout = [], stderr = [], clipboard = c\<rparr>))"
  using assms by (simp add: run_def Let_def exit_status_def main_unreadable initial_def)

subsection \<open>Paths, and environments that agree\<close>

lemma isabs_join: "isabs d \<Longrightarrow> isabs (join d p)"
  by (cases d) (auto simp: isabs_def join_def)

lemma join_isabs: "isabs p \<Longrightarrow> join d p = p"
  by (simp add: join_def)

lemma abspath_isabs: "isabs p \<Longrightarrow> abspath d p = normpath p"
  by (simp add: abspath_def)

lemma abspath_join: "isabs d \<Longrightarrow> abspath d' (join d p) = abspath d p"
  by (simp add: abspath_def isabs_join join_isabs)

lemma prompt_file_relative_box: "prompt_file relative_box = ''/opt/french_study/prompt.txt''"
  by code_simp

lemma read_file_cong: "fs e' p = fs e p \<Longrightarrow> read_file e' p s = read_file e p s"
  by (simp add: read_file_def)

lemma run_tool_cong: "popen e' = popen e \<Longrightarrow> run_tool e' = run_tool e"
  by (intro ext) (simp add: run_tool_def)

lemma copy_to_clipboard_cong:
  assumes "platform_system e' = platform_system e" and "popen e' = popen e"
  shows "copy_to_clipboard e' t s = copy_to_clipboard e t s"
  unfolding copy_to_clipboard_def copy_dispatch_def run_tool_cong [OF assms(2)] assms(1) ..

lemma dos_box_sel:
  "fs dos_box = dos_fs" "platform_system dos_box = ''Linux''"
  "popen dos_box = xclip_only"
  by (simp_all add: dos_box_def)

lemma prompt_file_dos_box: "prompt_file dos_box = ''/opt/french_study/prompt.txt''"
  by code_simp

lemma utility_dos_box: "utility_result dos_box = Some (ToolExited 0)"
  by (simp add: utility_result_def dos_box_sel xclip_only_def is_not_found_def)

subsection \<open>The claims\<close>

text \<open>
  C1, as the program behaves. The claim has the clipboard receive exactly the contents
  of the prompt file followed by the contents of the target file. The files are read in
  text mode, so line ends are translated on the way: for the dictation with DOS line ends
  the run with \<^verbatim>\<open>--new\<close> succeeds and pipes a text in which both carriage returns have
  become line feeds, which is not the prompt's contents followed by the file's.
\<close>

theorem crlf_prompted_payload_not_contents:
  "new (dictee True)
    \<and> fs dos_box (prompt_file dos_box) = Content ''Corrige: ''
    \<and> fs dos_box (file_path (dictee True)) = Content (''Bon'' @ [CR, LF] @ ''jour'' @ [CR])
    \<and> utility_result dos_box = Some (ToolExited 0)
    \<and> fst (run dos_box (dictee True) ''old'') = 0
    \<and> piped (events (snd (run dos_box (dictee True) ''old''))) =
        [''Corrige: '' @ ''Bon'' @ [LF] @ ''jour'' @ [LF]]
    \<and> piped (events (snd (run dos_box (dictee True) ''old''))) \<noteq>
        [''Corrige: '' @ ''Bon'' @ [CR, LF] @ ''jour'' @ [CR]]"
  by (simp add: utility_dos_box prompt_file_dos_box dictee_def run_def main_def read_file_def
        copy_to_clipboard_def copy_dispatch_def run_tool_def initial_def exit_status_def
        dos_box_sel dos_fs_def xclip_only_def)

text \<open>
  C1, amended. When the target file and the prompt file beside the script can both be
  read, a run with \<^verbatim>\<open>--new\<close> on a machine whose clipboard utility takes the text and ends
  successfully pipes exactly the prompt's contents followed by the file's contents, each
  with its line ends translated as text mode does (a carriage return with its line feed,
  and any other carriage return, becomes one line feed) and nothing between them, leaves
  exactly that on the clipboard and ends with exit status 0. For files that hold no
  carriage return this is exactly the contents of the one followed by the contents of
  the other.
\<close>

theorem new_copies_prompt_then_file:
  assumes "new a"
    and "fs e (prompt_file e) = Content p"
    and "fs e (file_path a) = Content f"
    and "utility_result e = Some (ToolExited 0)"
  shows "fst (run e a c) = 0
    \<and> piped (events (snd (run e a c))) = [universal_newlines p @ universal_newlines f]
    \<and> clipboard (snd (run e a c)) = universal_newlines p @ universal_newlines f
    \<and> (CR \<notin> set p \<and> CR \<notin> set f \<longrightarrow>
          piped (events (snd (run e a c))) = [p @ f]
          \<and> clipboard (snd (run e a c)) = p @ f)"
  by (simp add: run_def exit_status_def main_new [OF assms(3) assms(1) assms(2)] Let_def
        copy_exited [OF assms(4)] initial_def universal_newlines_no_cr)

theorem new_copies_prompt_then_file_witness:
  "(fst (run linux_box (lesson True) ''old'') = 0
    \<and> piped (events (snd (run linux_box (lesson True) ''old''))) = [''Corrige: Bonjour'']
    \<and> clipboard (snd (run linux_box (lesson True) ''old'')) = ''Corrige: Bonjour'')
   \<and> (fst (run dos_box (dictee True) ''old'') = 0
    \<and> piped (events (snd (run dos_box (dictee True) ''old''))) =
        [''Corrige: '' @ ''Bon'' @ [LF] @ ''jour'' @ [LF]]
    \<and> clipboard (snd (run dos_box (dictee True) ''old'')) =
        ''Corrige: '' @ ''Bon'' @ [LF] @ ''jour'' @ [LF])"
proof -
  have n: "new (lesson True)" "new (dictee True)"
    by (simp_all add: lesson_def dictee_def)
  have p: "fs linux_box (prompt_file linux_box) = Content ''Corrige: ''"
    by (simp add: prompt_file_linux_box linux_box_sel study_fs_def)
  have f: "fs linux_box (file_path (lesson True)) = Content ''Bonjour''"
    by (simp add: lesson_def linux_box_sel study_fs_def)
  have p': "fs dos_box (prompt_file dos_box) = Content ''Corrige: ''"
    by (simp add: prompt_file_dos_box dos_box_sel dos_fs_def)
  have f': "fs dos_box (file_path (dictee True)) = Content (''Bon'' @ [CR, LF] @ ''jour'' @ [CR])"
    by (simp add: dictee_def dos_box_sel dos_fs_def)
  show ?thesis
    using new_copies_prompt_then_file [OF n(1) p f utility_linux_box, where c = "''old''"]
      new_copies_prompt_then_file [OF n(2) p' f' utility_dos_box, where c = "''old''"]
    by simp
qed

text \<open>
  C2, as the program behaves. The claim has the clipboard receive exactly the contents
  of the file. For the dictation with DOS line ends the run without \<^verbatim>\<open>--new\<close> succeeds,
  prints the success line, and pipes a text in which both carriage returns have become
  line feeds, which is not the file's contents.
\<close>

theorem crlf_payload_not_contents:
  "\<not> new (dictee False)
    \<and> fs dos_box (file_path (dictee False)) = Content (''Bon'' @ [CR, LF] @ ''jour'' @ [CR])
    \<and> utility_result dos_box = Some (ToolExited 0)
    \<and> fst (run dos_box (dictee False) ''old'') = 0
    \<and> stdout (snd (run dos_box (dictee False) ''old'')) =
        [''Copied '' @ squote @ ''dictee.txt'' @ squote @ '' to clipboard.'']
    \<and> piped (events (snd (run dos_box (dictee False) ''old''))) =
        [''Bon'' @ [LF] @ ''jour'' @ [LF]]
    \<and> piped (events (snd (run dos_box (dictee False) ''old''))) \<noteq>
        [''Bon'' @ [CR, LF] @ ''jour'' @ [CR]]"
  by (simp add: utility_dos_box dictee_def run_def main_def read_file_def
        copy_to_clipboard_def copy_dispatch_def run_tool_def initial_def exit_status_def
        dos_box_sel dos_fs_def xclip_only_def)

text \<open>
  C2, amended. When the target file can be read and the clipboard utility takes the text
  and ends successfully, a run ends with exit status 0, prints nothing on the error stream
  and prints one line on the output stream: \<^verbatim>\<open>Copied '<file_path>' to clipboard.\<close> without
  \<^verbatim>\<open>--new\<close>, and \<^verbatim>\<open>Copied '<file_path>' with prompt to clipboard.\<close> with \<^verbatim>\<open>--new\<close> (the prompt
  file being readable). Without \<^verbatim>\<open>--new\<close> the text piped, and left on the clipboard, is
  exactly the file's contents with its line ends translated as text mode does (a carriage
  return with its line feed, and any other carriage return, becomes one line feed); for a
  file that holds no carriage return it is exactly the file's contents.
\<close>

theorem copy_and_report:
  assumes "fs e (file_path a) = Content f"
    and "new a \<Longrightarrow> fs e (prompt_file e) = Content p"
    and "utility_result e = Some (ToolExited 0)"
  shows "fst (run e a c) = 0
    \<and> stderr (snd (run e a c)) = []
    \<and> stdout (snd (run e a c)) =
        [''Copied '' @ squote @ file_path a @ squote @
         (if new a then '' with prompt to clipboard.'' else '' to clipboard.'')]
    \<and> (\<not> new a \<longrightarrow>
          piped (events (snd (run e a c))) = [universal_newlines f]
          \<and> clipboard (snd (run e a c)) = universal_newlines f
          \<and> (CR \<notin> set f \<longrightarrow>
                piped (events (snd (run e a c))) = [f] \<and> clipboard (snd (run e a c)) = f))"
proof (cases "new a")
  case True
  with assms(2) have p: "fs e (prompt_file e) = Content p" by simp
  show ?thesis
    by (simp add: run_def exit_status_def main_new [OF assms(1) True p] Let_def
          copy_exited [OF assms(3)] initial_def True)
next
  case False
  show ?thesis
    by (simp add: run_def exit_status_def main_plain [OF assms(1) False] Let_def
          copy_exited [OF assms(3)] initial_def False universal_newlines_no_cr)
qed

theorem copy_and_report_witness:
  "(fst (run linux_box (lesson False) ''old'') = 0
    \<and> stderr (snd (run linux_box (lesson False) ''old'')) = []
    \<and> stdout (snd (run linux_box (lesson False) ''old'')) =
        [''Copied '' @ squote @ ''lesson.txt'' @ squote @ '' to clipboard.'']
    \<and> piped (events (snd (run linux_box (lesson False) ''old''))) = [''Bonjour'']
    \<and> clipboard (snd (run linux_box (lesson False) ''old'')) = ''Bonjour'')
   \<and> (fst (run linux_box (lesson True) ''old'') = 0
    \<and> stderr (snd (run linux_box (lesson True) ''old'')) = []
    \<and> stdout (snd (run linux_box (lesson True) ''old'')) =
        [''Copied '' @ squote @ ''lesson.txt'' @ squote @ '' with prompt to clipboard.''])
   \<and> (fst (run dos_box (dictee False) ''old'') = 0
    \<and> piped (events (snd (run dos_box (dictee False) ''old''))) =
        [''Bon'' @ [LF] @ ''jour'' @ [LF]]
    \<and> clipboard (snd (run dos_box (dictee False) ''old'')) = ''Bon'' @ [LF] @ ''jour'' @ [LF])"
proof -
  have f: "fs linux_box (file_path (lesson n)) = Content ''Bonjour''" for n
    by (simp add: lesson_def linux_box_sel study_fs_def)
  have p: "new (lesson n) \<Longrightarrow> fs linux_box (prompt_file linux_box) = Content ''Corrige: ''" for n
    by (simp add: prompt_file_linux_box linux_box_sel study_fs_def)
  have f': "fs dos_box (file_path (dictee False)) = Content (''Bon'' @ [CR, LF] @ ''jour'' @ [CR])"
    by (simp add: dictee_def dos_box_sel dos_fs_def)
  have p': "new (dictee False) \<Longrightarrow> fs dos_box (prompt_file dos_box) = Content ''Corrige: ''"
    by (simp add: dictee_def)
  show ?thesis
    using copy_and_report [OF f [of False] p [of False] utility_linux_box, where c = "''old''"]
      copy_and_report [OF f [of True] p [of True] utility_linux_box, where c = "''old''"]
      copy_and_report [OF f' p' utility_dos_box, where c = "''old''"]
    by (simp add: lesson_def dictee_def)
qed



text \<open>
  C4, as the program behaves. The claim has the prompt file read before the target file,
  so that a missing prompt ends the run before the target is read. The program reads the
  target first: on the machine without \<^verbatim>\<open>prompt.txt\<close> the readable lesson is opened and
  read, and only then is the prompt file tried.
\<close>

theorem missing_prompt_target_read_first:
  "new (lesson True)
    \<and> fs no_prompt_box (prompt_file no_prompt_box) = FileNotFoundError
    \<and> fs no_prompt_box (file_path (lesson True)) = Content ''Bonjour''
    \<and> events (snd (run no_prompt_box (lesson True) ''old'')) =
        [Open ''lesson.txt'', Open ''/opt/french_study/prompt.txt'']"
  by (simp add: prompt_file_no_prompt_box lesson_def run_def main_def read_file_def initial_def
        no_prompt_box_sel bare_fs_def)

text \<open>
  C4, amended. Under \<^verbatim>\<open>--new\<close> with \<^verbatim>\<open>prompt.txt\<close> missing the run ends with exit status 1,
  prints nothing on the output stream and spawns no clipboard utility. The target file
  is read first: when it is readable the prompt file is tried second and the one line on
  the error stream names the prompt file; when it is not, the prompt file is never tried.
\<close>

theorem missing_prompt_exits_after_target_read:
  assumes "new a" and "fs e (prompt_file e) = FileNotFoundError"
  shows "fst (run e a c) = 1
    \<and> opened (events (snd (run e a c))) =
        (if is_content (fs e (file_path a)) then [file_path a, prompt_file e]
         else [file_path a])
    \<and> spawned (events (snd (run e a c))) = []
    \<and> clipboard (snd (run e a c)) = c
    \<and> stdout (snd (run e a c)) = []
    \<and> (is_content (fs e (file_path a)) \<longrightarrow>
          stderr (snd (run e a c)) =
            [''Error: File '' @ squote @ prompt_file e @ squote @ '' not found.''])"
proof (cases "is_content (fs e (file_path a))")
  case False
  then show ?thesis
    by (simp add: run_def Let_def exit_status_def main_unreadable read_file_error initial_def)
next
  case True
  then obtain f where f: "fs e (file_path a) = Content f"
    by (cases "fs e (file_path a)") (simp_all add: is_content_def)
  have u: "\<not> is_content (fs e (prompt_file e))"
    using assms(2) by (simp add: is_content_def)
  have "stderr (snd (read_file e (prompt_file e) s)) =
          stderr s @ [''Error: File '' @ squote @ prompt_file e @ squote @ '' not found.'']" for s
    using assms(2) by (simp add: read_file_def)
  then show ?thesis
    using True
    by (simp add: run_def Let_def exit_status_def main_prompt_unreadable [OF f assms(1) u]
          read_file_error [OF u] initial_def)
qed

theorem missing_prompt_exits_after_target_read_witness:
  "fst (run no_prompt_box (lesson True) ''old'') = 1
    \<and> opened (events (snd (run no_prompt_box (lesson True) ''old''))) =
        [''lesson.txt'', ''/opt/french_study/prompt.txt'']
    \<and> spawned (events (snd (run no_prompt_box (lesson True) ''old''))) = []
    \<and> clipboard (snd (run no_prompt_box (lesson True) ''old'')) = ''old''
    \<and> stdout (snd (run no_prompt_box (lesson True) ''old'')) = []
    \<and> stderr (snd (run no_prompt_box (lesson True) ''old'')) =
        [''Error: File '' @ squote @ ''/opt/french_study/prompt.txt'' @ squote @ '' not found.'']"
proof -
  have n: "new (lesson True)"
    by (simp add: lesson_def)
  have p: "fs no_prompt_box (prompt_file no_prompt_box) = FileNotFoundError"
    by (simp add: prompt_file_no_prompt_box no_prompt_box_sel bare_fs_def)
  have f: "is_content (fs no_prompt_box (file_path (lesson True)))"
    by (simp add: lesson_def no_prompt_box_sel bare_fs_def is_content_def)
  show ?thesis
    using missing_prompt_exits_after_target_read [OF n p, of "''old''"] f
    by (simp add: prompt_file_no_prompt_box lesson_def)
qed

text \<open>
  C5, as the program behaves. The claim has a clipboard command that runs and ends
  unsuccessfully reported on the error stream with exit status 1. The program never looks
  at the return code: on the machine whose \<^verbatim>\<open>xclip\<close> ends with code 1 the run prints the
  success line, nothing on the error stream, and ends with exit status 0.
\<close>

theorem failed_utility_reported_as_success:
  "utility_result headless_box = Some (ToolExited 1)
    \<and> fst (run headless_box (lesson False) ''old'') = 0
    \<and> stderr (snd (run headless_box (lesson False) ''old'')) = []
    \<and> stdout (snd (run headless_box (lesson False) ''old'')) =
        [''Copied '' @ squote @ ''lesson.txt'' @ squote @ '' to clipboard.'']"
  by (simp add: utility_result_def is_not_found_def run_def main_def read_file_def
        copy_to_clipboard_def copy_dispatch_def run_tool_def initial_def exit_status_def
        lesson_def headless_box_sel study_fs_def xclip_fails_def)

text \<open>
  C5, amended. With the files read, a clipboard command whose spawning raises an
  exception other than not-found makes the run print
  \<^verbatim>\<open>Error copying to clipboard: <e>\<close> on the error stream, no success line, and end with
  exit status 1. A command that was spawned and given the text makes the run print the
  success line and end with exit status 0, whatever its return code.
\<close>

theorem utility_failure_modes:
  assumes "fs e (file_path a) = Content f"
    and "new a \<Longrightarrow> fs e (prompt_file e) = Content p"
  shows "(utility_result e = Some (ToolRaised m) \<longrightarrow>
            fst (run e a c) = 1
            \<and> stderr (snd (run e a c)) = [''Error copying to clipboard: '' @ m]
            \<and> stdout (snd (run e a c)) = [])
    \<and> (utility_result e = Some (ToolExited rc) \<longrightarrow>
            fst (run e a c) = 0
            \<and> stderr (snd (run e a c)) = []
            \<and> stdout (snd (run e a c)) =
                [''Copied '' @ squote @ file_path a @ squote @
                 (if new a then '' with prompt to clipboard.'' else '' to clipboard.'')])"
proof (intro conjI impI)
  assume u: "utility_result e = Some (ToolRaised m)"
  note r = run_delivers [OF assms, of c]
  show "fst (run e a c) = 1" by (simp add: r Let_def copy_raised [OF u])
  show "stderr (snd (run e a c)) = [''Error copying to clipboard: '' @ m]"
    by (simp add: r Let_def copy_raised [OF u])
  show "stdout (snd (run e a c)) = []" by (simp add: r Let_def copy_raised [OF u])
next
  assume u: "utility_result e = Some (ToolExited rc)"
  note r = run_delivers [OF assms, of c]
  show "fst (run e a c) = 0" by (simp add: r Let_def copy_exited [OF u])
  show "stderr (snd (run e a c)) = []" by (simp add: r Let_def copy_exited [OF u])
  show "stdout (snd (run e a c)) =
          [''Copied '' @ squote @ file_path a @ squote @
           (if new a then '' with prompt to clipboard.'' else '' to clipboard.'')]"
    by (simp add: r Let_def copy_exited [OF u])
qed

theorem utility_failure_modes_witness:
  "(fst (run locked_box (lesson False) ''old'') = 1
     \<and> stderr (snd (run locked_box (lesson False) ''old'')) =
         [''Error copying to clipboard: [Errno 13] Permission denied'']
     \<and> stdout (snd (run locked_box (lesson False) ''old'')) = [])
   \<and> (fst (run headless_box (lesson False) ''old'') = 0
     \<and> stderr (snd (run headless_box (lesson False) ''old'')) = []
     \<and> stdout (snd (run headless_box (lesson False) ''old'')) =
         [''Copied '' @ squote @ ''lesson.txt'' @ squote @ '' to clipboard.''])"
proof -
  have n: "new (lesson False) \<Longrightarrow> fs e (prompt_file e) = Content []" for e
    by (simp add: lesson_def)
  have l: "fs locked_box (file_path (lesson False)) = Content ''Bonjour''"
    by (simp add: lesson_def locked_box_sel study_fs_def)
  have h: "fs headless_box (file_path (lesson False)) = Content ''Bonjour''"
    by (simp add: lesson_def headless_box_sel study_fs_def)
  show ?thesis
    using utility_failure_modes [OF l n, of "''[Errno 13] Permission denied''" "''old''" 0]
      utility_failure_modes [OF h n, of "''[Errno 13] Permission denied''" "''old''" 1]
    by (simp add: utility_locked_box utility_headless_box lesson_def)
qed

text \<open>
  C6. On Linux \<^verbatim>\<open>copy_to_clipboard\<close> first spawns \<^verbatim>\<open>xclip -selection clipboard\<close> and pipes the
  text to it. It spawns \<^verbatim>\<open>xsel --clipboard --input\<close>, and pipes the same text to it, exactly
  when spawning \<^verbatim>\<open>xclip\<close> raised not-found. When \<^verbatim>\<open>xsel\<close> is not found either, nothing
  else is spawned: the call prints
  \<^verbatim>\<open>Error: Required clipboard utility not found. <e>\<close> on the error stream, leaves the
  clipboard alone and exits with status 1.
\<close>

theorem linux_tries_xclip_then_xsel:
  assumes "platform_system e = ''Linux''"
  shows "events (snd (copy_to_clipboard e t s)) = events s @
      (if is_not_found (popen e [''xclip'', ''-selection'', ''clipboard''] False) then
         [Popen [''xclip'', ''-selection'', ''clipboard''] False,
          Popen [''xsel'', ''--clipboard'', ''--input''] False]
         @ (if is_exited (popen e [''xsel'', ''--clipboard'', ''--input''] False)
            then [Communicate [''xsel'', ''--clipboard'', ''--input''] t] else [])
       else
         [Popen [''xclip'', ''-selection'', ''clipboard''] False]
         @ (if is_exited (popen e [''xclip'', ''-selection'', ''clipboard''] False)
            then [Communicate [''xclip'', ''-selection'', ''clipboard''] t] else []))
    \<and> (is_not_found (popen e [''xclip'', ''-selection'', ''clipboard''] False)
         \<and> popen e [''xsel'', ''--clipboard'', ''--input''] False = ToolNotFound m \<longrightarrow>
         fst (copy_to_clipboard e t s) = Inl 1
         \<and> stderr (snd (copy_to_clipboard e t s)) =
             stderr s @ [''Error: Required clipboard utility not found. '' @ m]
         \<and> clipboard (snd (copy_to_clipboard e t s)) = clipboard s)"
  using assms
  by (auto simp: copy_to_clipboard_def copy_dispatch_def run_tool_def Let_def
        is_not_found_def is_exited_def split: tool_result.splits)

theorem linux_tries_xclip_then_xsel_witness:
  "events (snd (copy_to_clipboard linux_box ''Bonjour'' (initial ''old''))) =
     [Popen [''xclip'', ''-selection'', ''clipboard''] False,
      Communicate [''xclip'', ''-selection'', ''clipboard''] ''Bonjour'']
   \<and> events (snd (copy_to_clipboard xsel_box ''Bonjour'' (initial ''old''))) =
     [Popen [''xclip'', ''-selection'', ''clipboard''] False,
      Popen [''xsel'', ''--clipboard'', ''--input''] False,
      Communicate [''xsel'', ''--clipboard'', ''--input''] ''Bonjour'']
   \<and> events (snd (copy_to_clipboard minimal_box ''Bonjour'' (initial ''old''))) =
     [Popen [''xclip'', ''-selection'', ''clipboard''] False,
      Popen [''xsel'', ''--clipboard'', ''--input''] False]
   \<and> fst (copy_to_clipboard minimal_box ''Bonjour'' (initial ''old'')) = Inl 1
   \<and> stderr (snd (copy_to_clipboard minimal_box ''Bonjour'' (initial ''old''))) =
     [''Error: Required clipboard utility not found. [Errno 2] No such file or directory: xsel'']
   \<and> clipboard (snd (copy_to_clipboard minimal_box ''Bonjour'' (initial ''old''))) = ''old''"
  using linux_tries_xclip_then_xsel [OF linux_box_sel(2), of "''Bonjour''" "initial ''old''" "[]"]
    linux_tries_xclip_then_xsel [OF xsel_box_sel(2), of "''Bonjour''" "initial ''old''" "[]"]
    linux_tries_xclip_then_xsel [OF minimal_box_sel(2), of "''Bonjour''" "initial ''old''"
      "''[Errno 2] No such file or directory: xsel''"]
  by (simp add: linux_box_sel xsel_box_sel minimal_box_sel xclip_only_def xsel_only_def
        nothing_installed_def is_not_found_def is_exited_def initial_def)

text \<open>
  C7. On a platform other than \<^verbatim>\<open>Darwin\<close>, \<^verbatim>\<open>Linux\<close> and \<^verbatim>\<open>Windows\<close> every run ends with exit
  status 1, prints nothing on the output stream, spawns nothing and leaves the clipboard
  alone; when the files it reads are readable, whatever they hold, the line on the error
  stream is \<^verbatim>\<open>Error copying to clipboard: Unsupported operating system: <system>\<close>.
\<close>

theorem unsupported_platform_exits_1:
  assumes "platform_system e \<noteq> ''Darwin''"
    and "platform_system e \<noteq> ''Linux''"
    and "platform_system e \<noteq> ''Windows''"
  shows "fst (run e a c) = 1
    \<and> spawned (events (snd (run e a c))) = []
    \<and> clipboard (snd (run e a c)) = c
    \<and> stdout (snd (run e a c)) = []
    \<and> (is_content (fs e (file_path a)) \<and> (new a \<longrightarrow> is_content (fs e (prompt_file e))) \<longrightarrow>
          stderr (snd (run e a c)) =
            [''Error copying to clipboard: Unsupported operating system: ''
               @ platform_system e])"
proof (cases "is_content (fs e (file_path a)) \<and> (new a \<longrightarrow> is_content (fs e (prompt_file e)))")
  case True
  then obtain f where f: "fs e (file_path a) = Content f"
    by (cases "fs e (file_path a)") (simp_all add: is_content_def)
  obtain p where p: "new a \<Longrightarrow> fs e (prompt_file e) = Content p"
    using True by (cases "fs e (prompt_file e)") (simp_all add: is_content_def)
  show ?thesis
    by (simp add: run_delivers [OF f p] Let_def copy_unsupported [OF assms])
next
  case False
  then have "\<not> is_content (fs e (file_path a))
           \<or> (new a \<and> \<not> is_content (fs e (prompt_file e)))"
    by blast
  then show ?thesis
  proof (cases "is_content (fs e (file_path a))")
    case False
    then show ?thesis
      by (simp add: run_def Let_def exit_status_def main_unreadable read_file_error
            initial_def)
  next
    case True
    then obtain f where f: "fs e (file_path a) = Content f"
      by (cases "fs e (file_path a)") (simp_all add: is_content_def)
    from \<open>\<not> (is_content (fs e (file_path a)) \<and> (new a \<longrightarrow> is_content (fs e (prompt_file e))))\<close> True
    have n: "new a" "\<not> is_content (fs e (prompt_file e))" by simp_all
    show ?thesis
      using f n
      by (simp add: run_def Let_def exit_status_def main_prompt_unreadable [where f = f]
            read_file_error initial_def)
  qed
qed

theorem unsupported_platform_exits_1_witness:
  "fst (run bsd_box (lesson False) ''old'') = 1
    \<and> spawned (events (snd (run bsd_box (lesson False) ''old''))) = []
    \<and> clipboard (snd (run bsd_box (lesson False) ''old'')) = ''old''
    \<and> stdout (snd (run bsd_box (lesson False) ''old'')) = []
    \<and> stderr (snd (run bsd_box (lesson False) ''old'')) =
        [''Error copying to clipboard: Unsupported operating system: FreeBSD'']"
  using unsupported_platform_exits_1 [of bsd_box "lesson False" "''old''"]
  by (simp add: bsd_box_sel lesson_def study_fs_def is_content_def)

text \<open>
  C9. The prompt path is the file name \<^verbatim>\<open>prompt.txt\<close> joined to the directory of the
  script's absolute path. It is the same from every working directory: for a script
  known by its absolute path the working directory plays no part, and for a script
  started by a relative name the path is the one obtained for its absolute location,
  whatever the working directory is then. (\<^verbatim>\<open>os.path\<close> as on Linux and macOS.)
\<close>

theorem prompt_path_beside_script:
  "prompt_file e = join (dirname (abspath (getcwd e) (dunder_file e))) ''prompt.txt''
   \<and> (isabs (dunder_file e) \<longrightarrow> prompt_file (e\<lparr>getcwd := d\<rparr>) = prompt_file e)
   \<and> (isabs (getcwd e) \<longrightarrow>
        prompt_file (e\<lparr>getcwd := d, dunder_file := join (getcwd e) (dunder_file e)\<rparr>)
          = prompt_file e)"
  by (simp add: prompt_file_def abspath_isabs abspath_join)

theorem prompt_path_beside_script_witness:
  "prompt_file (linux_box\<lparr>getcwd := ''/tmp''\<rparr>) = ''/opt/french_study/prompt.txt''
   \<and> prompt_file
        (relative_box\<lparr>getcwd := ''/tmp'', dunder_file := ''/opt/french_study/submit.py''\<rparr>)
       = ''/opt/french_study/prompt.txt''"
proof -
  have a: "isabs (dunder_file linux_box)"
    by (simp add: linux_box_def isabs_def)
  have b: "isabs (getcwd relative_box)"
    by (simp add: relative_box_def isabs_def)
  have j: "join (getcwd relative_box) (dunder_file relative_box) = ''/opt/french_study/submit.py''"
    by (simp add: relative_box_def join_def isabs_def)
  show ?thesis
    using prompt_path_beside_script [of linux_box "''/tmp''"]
      prompt_path_beside_script [of relative_box "''/tmp''"]
    by (simp add: a b j prompt_file_linux_box prompt_file_relative_box)
qed

text \<open>
  C10. Without \<^verbatim>\<open>--new\<close> the prompt file plays no part: two machines that agree on the
  target file, the platform and the clipboard utilities give the same run (exit status,
  calls, both streams, clipboard) whatever they hold at the prompt path, and the only
  path the run opens is the target's.
\<close>

theorem without_new_prompt_untouched:
  assumes "\<not> new a"
    and "fs e' (file_path a) = fs e (file_path a)"
    and "platform_system e' = platform_system e"
    and "popen e' = popen e"
  shows "run e' a c = run e a c
    \<and> opened (events (snd (run e a c))) = [file_path a]"
proof -
  have "main e' a s = main e a s" for s
  proof (cases "is_content (fs e (file_path a))")
    case False
    then show ?thesis
      by (simp add: main_unreadable assms(2) read_file_cong [OF assms(2)])
  next
    case True
    then obtain f where f: "fs e (file_path a) = Content f"
      by (cases "fs e (file_path a)") (simp_all add: is_content_def)
    then have f': "fs e' (file_path a) = Content f"
      by (simp add: assms(2))
    show ?thesis
      by (simp add: main_plain [OF f assms(1)] main_plain [OF f' assms(1)]
            copy_to_clipboard_cong [OF assms(3) assms(4)])
  qed
  then have 1: "run e' a c = run e a c"
    by (simp add: run_def)
  have 2: "opened (events (snd (run e a c))) = [file_path a]"
  proof (cases "is_content (fs e (file_path a))")
    case False
    then show ?thesis
      by (simp add: run_unreadable read_file_error)
  next
    case True
    then obtain f where f: "fs e (file_path a) = Content f"
      by (cases "fs e (file_path a)") (simp_all add: is_content_def)
    show ?thesis
      by (simp add: run_def Let_def main_plain [OF f assms(1)] copy_keeps initial_def
            split: sum.splits)
  qed
  from 1 2 show ?thesis by simp
qed

theorem without_new_prompt_untouched_witness:
  "run no_prompt_box (lesson False) ''old'' = run linux_box (lesson False) ''old''
    \<and> opened (events (snd (run linux_box (lesson False) ''old''))) = [''lesson.txt'']
    \<and> is_content (fs linux_box (prompt_file linux_box))
    \<and> \<not> is_content (fs no_prompt_box (prompt_file no_prompt_box))"
  using without_new_prompt_untouched [of "lesson False" no_prompt_box linux_box "''old''"]
  by (simp add: lesson_def linux_box_sel no_prompt_box_sel study_fs_def bare_fs_def
        prompt_file_linux_box prompt_file_no_prompt_box is_content_def)

end
